theory Spec2Isabelle
  imports Complex_Main
begin

section \<open>Values\<close>

text \<open>
  The scale builder of \<^verbatim>\<open>UPlotScaleBuilder.ts\<close> works on JavaScript numbers that may be
  \<^verbatim>\<open>null\<close> or \<^verbatim>\<open>undefined\<close>. A finite number is a \<open>real\<close>: every operation the builder
  itself performs on numbers (comparison, negation, \<^verbatim>\<open>Math.abs\<close>, \<^verbatim>\<open>Math.max\<close>, floor and
  ceiling) is exact on finite doubles. What the builder is given, the configured bounds and
  the data extent, is finite; what the range helpers of the library give back is any
  JavaScript number, \<^verbatim>\<open>NaN\<close> and the infinities included.

  \<^item> \<open>jsnum\<close> is \<^verbatim>\<open>number | null | undefined\<close>, the number finite (the optional properties of
    \<^verbatim>\<open>ScaleProps\<close>);
  \<^item> \<open>real option\<close> is \<^verbatim>\<open>number | null\<close>, the number finite (a data extent);
  \<^item> \<open>number\<close> is any JavaScript number, and \<open>number option\<close> an entry of \<^verbatim>\<open>Range.MinMax\<close>,
    \<open>None\<close> being \<^verbatim>\<open>null\<close>;
  \<^item> an optional property that is only tested for presence is an \<open>option\<close>.
  The default hard limit of the range configuration, the one infinite literal of the
  source, has a type of its own (\<open>xnum\<close>).
\<close>

datatype jsnum = Undefined | Null | Num real

datatype number = NaN | NegInfinity | Finite real | Infinity

type_synonym minmax = "number option \<times> number option"

datatype xnum = NegInf | Fin real | PosInf

datatype error = TypeError

text \<open>\<^verbatim>\<open>x == null\<close>: true of \<^verbatim>\<open>null\<close> and of \<^verbatim>\<open>undefined\<close>.\<close>

fun isNullish :: "jsnum \<Rightarrow> bool" where
  "isNullish Undefined = True"
| "isNullish Null = True"
| "isNullish (Num x) = False"

text \<open>
  The number a \<^verbatim>\<open>number | null\<close> value stands for in arithmetic and in a comparison:
  \<^verbatim>\<open>null\<close> converts to \<open>0\<close> (so \<^verbatim>\<open>Math.abs(null) === 0\<close> and \<^verbatim>\<open>null >= 0\<close>).
\<close>

fun toNumber :: "real option \<Rightarrow> real" where
  "toNumber None = 0"
| "toNumber (Some x) = x"

text \<open>
  \<^verbatim>\<open>x!\<close>, TypeScript's non-null assertion, is erased at run time: the value goes through
  unchanged. The builder writes \<^verbatim>\<open>hardMin!\<close> and \<^verbatim>\<open>hardMax!\<close> only under \<^verbatim>\<open>hardMinOnly\<close> and
  \<^verbatim>\<open>hardMaxOnly\<close>, where the value is a number.
\<close>

fun nonNull :: "jsnum \<Rightarrow> real option" where
  "nonNull (Num x) = Some x"
| "nonNull Null = None"
| "nonNull Undefined = None"

text \<open>A finite number or \<^verbatim>\<open>null\<close> as an entry of a range, and a pair of them as a range.\<close>

fun ofExtent :: "real option \<Rightarrow> number option" where
  "ofExtent None = None"
| "ofExtent (Some x) = Some (Finite x)"

definition ofExtents :: "real option \<times> real option \<Rightarrow> minmax" where
  "ofExtents e = (ofExtent (fst e), ofExtent (snd e))"

text \<open>
  The number an entry of a range stands for in arithmetic and in a comparison: \<^verbatim>\<open>null\<close>
  converts to \<open>0\<close>.
\<close>

fun numberOf :: "number option \<Rightarrow> number" where
  "numberOf None = Finite 0"
| "numberOf (Some n) = n"

text \<open>
  \<^verbatim>\<open>a >= b\<close> and \<^verbatim>\<open>a < b\<close> on numbers: both are false when either side is \<^verbatim>\<open>NaN\<close>. Unary minus.
\<close>

fun jsGe :: "number \<Rightarrow> number \<Rightarrow> bool" where
  "jsGe NaN b = False"
| "jsGe a NaN = False"
| "jsGe Infinity b = True"
| "jsGe a NegInfinity = True"
| "jsGe (Finite x) (Finite y) = (x \<ge> y)"
| "jsGe (Finite x) Infinity = False"
| "jsGe NegInfinity b = False"


fun jsNeg :: "number \<Rightarrow> number" where
  "jsNeg NaN = NaN"
| "jsNeg NegInfinity = Infinity"
| "jsNeg (Finite x) = Finite (- x)"
| "jsNeg Infinity = NegInfinity"

text \<open>
  A function of finite numbers that leaves \<^verbatim>\<open>NaN\<close> and the infinities as they are, as
  \<^verbatim>\<open>Math.floor\<close>, \<^verbatim>\<open>Math.ceil\<close> and the division and the multiplication by 1 do.
\<close>

fun onFinite :: "(real \<Rightarrow> real) \<Rightarrow> number \<Rightarrow> number" where
  "onFinite f (Finite x) = Finite (f x)"
| "onFinite f NaN = NaN"
| "onFinite f NegInfinity = NegInfinity"
| "onFinite f Infinity = Infinity"

section \<open>The data model\<close>

text \<open>
  Modelled from the spec: the enumeration \<^verbatim>\<open>ScaleDistribution\<close> of \<^verbatim>\<open>@grafana/schema\<close>, whose
  declaration is not among the sources; the spec lists its members as Linear, Log, SymLog
  and Ordinal.
\<close>

datatype ScaleDistribution = Linear | Log | Ordinal | Symlog

text \<open>
  One side of uPlot's \<^verbatim>\<open>Range.Config\<close>, and the configuration of both sides. The builder
  only fills the record and hands it to \<^verbatim>\<open>uPlot.rangeNum\<close>.
\<close>

record RangeLimit =
  pad :: real
  hard :: xnum
  soft :: real
  mode :: nat

record RangeConfig =
  min_cfg :: RangeLimit
  max_cfg :: RangeLimit

text \<open>
  What the resolver reads of the uPlot instance: \<^verbatim>\<open>u.scales[scaleKey]\<close>, and of that scale
  its \<^verbatim>\<open>distr\<close> and \<^verbatim>\<open>log\<close>. A key with no scale reads as \<^verbatim>\<open>undefined\<close>.
\<close>

record uScale =
  u_distr :: "nat option"
  u_log :: "real option"

record uPlot =
  scales :: "string \<rightharpoonup> uScale"

text \<open>
  \<^verbatim>\<open>Scale.Range\<close>: a literal pair, a range function or a range configuration.
\<close>

datatype scale_range =
  RangeMinMax "real option" "real option"
| RangeFunction "uPlot \<Rightarrow> real option \<Rightarrow> real option \<Rightarrow> string \<Rightarrow> error + minmax"
| RangeCfg RangeConfig

text \<open>
  \<^verbatim>\<open>ScaleProps\<close>. The properties \<^verbatim>\<open>min\<close>, \<^verbatim>\<open>max\<close>, \<^verbatim>\<open>range\<close> and \<^verbatim>\<open>log\<close> carry a prime, their
  names being constants of HOL. Orientation and direction are numeric enumerations the
  builder passes through.
\<close>

record ScaleProps =
  scaleKey :: string
  isTime :: "bool option"
  min' :: jsnum
  max' :: jsnum
  softMin :: jsnum
  softMax :: jsnum
  range' :: "scale_range option"
  distribution :: "ScaleDistribution option"
  orientation :: int
  direction :: int
  log' :: "real option"
  linearThreshold :: "real option"
  centeredZero :: "bool option"
  decimals :: jsnum

text \<open>
  The scale descriptor \<^verbatim>\<open>getConfig\<close> builds: \<^verbatim>\<open>{time, auto, range, dir, ori, ...distribution}\<close>.
  A field that is absent and a field that is \<^verbatim>\<open>undefined\<close> both read as \<open>None\<close>.
\<close>

record Scale =
  d_time :: "bool option"
  d_auto :: bool
  d_range :: scale_range
  d_dir :: int
  d_ori :: int
  d_distr :: "nat option"
  d_log :: "real option"
  d_asinh :: "real option"

text \<open>
  The functions the builder imports and this development takes as parameters:
  \<^verbatim>\<open>uPlot.rangeNum\<close>, \<^verbatim>\<open>uPlot.rangeLog\<close> and \<^verbatim>\<open>uPlot.rangeAsinh\<close> of the uPlot library, and
  \<^verbatim>\<open>isBooleanUnit\<close> of \<^verbatim>\<open>@grafana/data\<close>. The resolver passes its extents on as they are, so
  the range helpers take \<^verbatim>\<open>number | null\<close>; what they return is a \<^verbatim>\<open>Range.MinMax\<close> of any
  numbers.
\<close>

record Externals =
  rangeNum :: "real option \<Rightarrow> real option \<Rightarrow> RangeConfig \<Rightarrow> minmax"
  rangeLog :: "real option \<Rightarrow> real option \<Rightarrow> real \<Rightarrow> bool \<Rightarrow> minmax"
  rangeAsinh :: "real option \<Rightarrow> real option \<Rightarrow> real \<Rightarrow> bool \<Rightarrow> minmax"
  isBooleanUnit :: "string \<Rightarrow> bool"

section \<open>Merging bounds\<close>

datatype minmax_tag = MinTag | MaxTag

text \<open>\<^verbatim>\<open>optMinMax(minmax, a, b)\<close>.\<close>

definition optMinMax :: "minmax_tag \<Rightarrow> jsnum \<Rightarrow> jsnum \<Rightarrow> jsnum" where
  "optMinMax minmax a b =
     (let hasA = \<not> (a = Undefined \<or> a = Null);
          hasB = \<not> (b = Undefined \<or> b = Null)
      in if hasA then
           (if \<not> hasB then a
            else if minmax = MinTag then (if toNumber (nonNull a) < toNumber (nonNull b) then a else b)
            else (if toNumber (nonNull a) > toNumber (nonNull b) then a else b))
         else b)"

text \<open>\<^verbatim>\<open>UPlotScaleBuilder.merge(props)\<close>: the builder's own props, updated.\<close>

definition merge :: "ScaleProps \<Rightarrow> ScaleProps \<Rightarrow> ScaleProps" where
  "merge this props =
     this\<lparr>min' := optMinMax MinTag (min' this) (min' props),
          max' := optMinMax MaxTag (max' this) (max' props)\<rparr>"

section \<open>The range resolver\<close>

text \<open>
  Modelled from the spec: \<^verbatim>\<open>incrRoundDn\<close> and \<^verbatim>\<open>incrRoundUp\<close> of \<^verbatim>\<open>@grafana/data\<close>, which are not
  among the sources. The spec has the decimal snap floor the minimum and ceil the maximum
  to the nearest integer, the increment being 1; for another increment the result is the
  multiple of the increment below, respectively above. \<^verbatim>\<open>NaN\<close> and the infinities have no
  floor and no ceiling: the snap takes them through \<open>onFinite\<close>.
\<close>

definition incrRoundDn :: "real \<Rightarrow> real \<Rightarrow> real" where
  "incrRoundDn num incr = of_int \<lfloor>num / incr\<rfloor> * incr"

definition incrRoundUp :: "real \<Rightarrow> real \<Rightarrow> real" where
  "incrRoundUp num incr = of_int \<lceil>num / incr\<rceil> * incr"

text \<open>The constants \<^verbatim>\<open>getConfig\<close> computes before it builds \<^verbatim>\<open>rangeFn\<close>.\<close>

definition rangeConfig :: "ScaleProps \<Rightarrow> RangeConfig" where
  "rangeConfig p =
     \<lparr>min_cfg = \<lparr>pad = 1 / 10,
                 hard = (case min' p of Num h \<Rightarrow> Fin h | _ \<Rightarrow> NegInf),
                 soft = (case softMin p of Num s \<Rightarrow> s | _ \<Rightarrow> 0),
                 mode = (if isNullish (softMin p) then 3 else 1)\<rparr>,
      max_cfg = \<lparr>pad = 1 / 10,
                 hard = (case max' p of Num h \<Rightarrow> Fin h | _ \<Rightarrow> PosInf),
                 soft = (case softMax p of Num s \<Rightarrow> s | _ \<Rightarrow> 0),
                 mode = (if isNullish (softMax p) then 3 else 1)\<rparr>\<rparr>"

definition hardMinOnly :: "ScaleProps \<Rightarrow> bool" where
  "hardMinOnly p = (isNullish (softMin p) \<and> \<not> isNullish (min' p))"

definition hardMaxOnly :: "ScaleProps \<Rightarrow> bool" where
  "hardMaxOnly p = (isNullish (softMax p) \<and> \<not> isNullish (max' p))"

definition hasFixedRange :: "ScaleProps \<Rightarrow> bool" where
  "hasFixedRange p = (hardMinOnly p \<and> hardMaxOnly p)"

text \<open>
  The resolver \<^verbatim>\<open>rangeFn\<close> in the order of its statements. The test of lines 97 to 99,
  under which it returns the extent as it came:
\<close>

definition noData :: "ScaleProps \<Rightarrow> real option \<Rightarrow> real option \<Rightarrow> bool" where
  "noData p dataMin dataMax = (\<not> hasFixedRange p \<and> dataMin = None \<and> dataMax = None)"

text \<open>The block under \<^verbatim>\<open>if (centeredZero)\<close>, lines 103 to 107: the new extent.\<close>

definition centered :: "real option \<Rightarrow> real option \<Rightarrow> real option \<times> real option" where
  "centered dataMin dataMax =
     (let absMin = \<bar>toNumber dataMin\<bar>;
          absMax = \<bar>toNumber dataMax\<bar>;
          mx = max absMin absMax
      in (Some (- mx), Some mx))"

text \<open>The extent after lines 102 to 108.\<close>

definition centerStage ::
  "ScaleProps \<Rightarrow> real option \<Rightarrow> real option \<Rightarrow> real option \<times> real option" where
  "centerStage p dataMin dataMax =
     (if centeredZero p = Some True then centered dataMin dataMax else (dataMin, dataMax))"

text \<open>
  Lines 101 to 117: \<^verbatim>\<open>minMax\<close> after the branch on \<^verbatim>\<open>scale.distr\<close>. With no branch taken it
  is still \<^verbatim>\<open>[dataMin, dataMax]\<close>.
\<close>

definition distrStage ::
  "Externals \<Rightarrow> ScaleProps \<Rightarrow> uScale \<Rightarrow> real option \<Rightarrow> real option \<Rightarrow> minmax" where
  "distrStage L p scale dataMin dataMax =
     (if u_distr scale = Some 1 \<or> u_distr scale = Some 2 \<or> u_distr scale = Some 4 then
        (let (dataMin', dataMax') = centerStage p dataMin dataMax
         in rangeNum L (if hardMinOnly p then nonNull (min' p) else dataMin')
                       (if hardMaxOnly p then nonNull (max' p) else dataMax')
                       (rangeConfig p))
      else if u_distr scale = Some 3 then
        rangeLog L dataMin dataMax (case u_log scale of Some b \<Rightarrow> b | None \<Rightarrow> 10) True
      else if u_distr scale = Some 4 then
        rangeAsinh L dataMin dataMax (case u_log scale of Some b \<Rightarrow> b | None \<Rightarrow> 10) False
      else (ofExtent dataMin, ofExtent dataMax))"

text \<open>Lines 119 to 122.\<close>

definition snapStage :: "ScaleProps \<Rightarrow> minmax \<Rightarrow> minmax" where
  "snapStage p minMax =
     (if decimals p = Num 0 then
        (Some (onFinite (\<lambda>x. incrRoundDn x 1) (numberOf (fst minMax))),
         Some (onFinite (\<lambda>x. incrRoundUp x 1) (numberOf (snd minMax))))
      else minMax)"

text \<open>Lines 125 to 131.\<close>

definition hardStage :: "ScaleProps \<Rightarrow> minmax \<Rightarrow> minmax" where
  "hardStage p minMax =
     (let m0 = (if hardMinOnly p then ofExtent (nonNull (min' p)) else fst minMax);
          m1 = (if hardMaxOnly p then ofExtent (nonNull (max' p)) else snd minMax)
      in (m0, m1))"

text \<open>
  Lines 134 to 137. The comparison is JavaScript's: it is false, and the range stays as it
  is, when either side is \<^verbatim>\<open>NaN\<close>.
\<close>

definition guardStage :: "minmax \<Rightarrow> minmax" where
  "guardStage minMax =
     (if jsGe (numberOf (fst minMax)) (numberOf (snd minMax))
      then (Some (Finite 0), Some (Finite 100)) else minMax)"

text \<open>The fallback range of lines 135 and 136, and the two roundings of lines 120 and 121.\<close>

abbreviation fallbackRange :: minmax where
  "fallbackRange \<equiv> (Some (Finite 0), Some (Finite 100))"

abbreviation snapMin :: "number option \<Rightarrow> number" where
  "snapMin m \<equiv> onFinite (\<lambda>x. incrRoundDn x 1) (numberOf m)"

abbreviation snapMax :: "number option \<Rightarrow> number" where
  "snapMax m \<equiv> onFinite (\<lambda>x. incrRoundUp x 1) (numberOf m)"

text \<open>
  \<^verbatim>\<open>minMax\<close> as it stands before the guard of line 134, for a call that has read its scale.
\<close>

definition beforeGuard ::
  "Externals \<Rightarrow> ScaleProps \<Rightarrow> uScale \<Rightarrow> real option \<Rightarrow> real option \<Rightarrow> minmax" where
  "beforeGuard L p scale dataMin dataMax =
     hardStage p (snapStage p (distrStage L p scale dataMin dataMax))"

text \<open>
  \<^verbatim>\<open>rangeFn(u, dataMin, dataMax, scaleKey)\<close>, closed over the props \<^verbatim>\<open>getConfig\<close> read.
  Reading \<^verbatim>\<open>scale.distr\<close> of a scale that is \<^verbatim>\<open>undefined\<close> throws a \<^verbatim>\<open>TypeError\<close>; the early
  return comes before that read.
\<close>

definition rangeFn ::
  "Externals \<Rightarrow> ScaleProps \<Rightarrow> uPlot \<Rightarrow> real option \<Rightarrow> real option \<Rightarrow> string \<Rightarrow> error + minmax" where
  "rangeFn L p u dataMin dataMax key =
     (let scale = scales u key;
          minMax = (ofExtent dataMin, ofExtent dataMax)
      in if \<not> hasFixedRange p \<and> dataMin = None \<and> dataMax = None then Inr minMax
         else (case scale of
                 None \<Rightarrow> Inl TypeError
               | Some sc \<Rightarrow> Inr (guardStage (beforeGuard L p sc dataMin dataMax))))"

section \<open>The scale descriptor\<close>

text \<open>The object \<^verbatim>\<open>distribution\<close> of lines 48 to 61: its \<^verbatim>\<open>distr\<close>, \<^verbatim>\<open>log\<close> and \<^verbatim>\<open>asinh\<close>.\<close>

definition distributionFields :: "ScaleProps \<Rightarrow> nat option \<times> real option \<times> real option" where
  "distributionFields p =
     (let distr = distribution p
      in if isTime p \<noteq> Some True then
           (Some (if distr = Some Symlog then 4
                  else if distr = Some Log then 3
                  else if distr = Some Ordinal then 2
                  else 1),
            (if distr = Some Log \<or> distr = Some Symlog
             then Some (case log' p of Some b \<Rightarrow> b | None \<Rightarrow> 2) else None),
            (if distr = Some Symlog
             then Some (case linearThreshold p of Some t \<Rightarrow> t | None \<Rightarrow> 1) else None))
         else (None, None, None))"

text \<open>The descriptor stored under the scale key, and \<^verbatim>\<open>getConfig()\<close>.\<close>

definition scaleConfig :: "Externals \<Rightarrow> ScaleProps \<Rightarrow> Scale" where
  "scaleConfig L p =
     (let auto0 = (isTime p \<noteq> Some True \<and> \<not> hasFixedRange p);
          bool = isBooleanUnit L (scaleKey p);
          auto1 = (if bool then False else auto0);
          range1 = (if bool then Some (RangeMinMax (Some 0) (Some 1)) else range' p);
          (distr, lg, asinh) = distributionFields p
      in \<lparr>d_time = isTime p,
          d_auto = auto1,
          d_range = (case range1 of Some r \<Rightarrow> r | None \<Rightarrow> RangeFunction (rangeFn L p)),
          d_dir = direction p,
          d_ori = orientation p,
          d_distr = distr,
          d_log = lg,
          d_asinh = asinh\<rparr>)"

definition getConfig :: "Externals \<Rightarrow> ScaleProps \<Rightarrow> (string \<rightharpoonup> Scale)" where
  "getConfig L p = [scaleKey p \<mapsto> scaleConfig L p]"

section \<open>The resolver without its asinh branch\<close>

text \<open>
  The resolver with the branch of lines 114 to 116 removed, to compare with \<open>rangeFn\<close>.
\<close>

definition distrStage_noAsinh ::
  "Externals \<Rightarrow> ScaleProps \<Rightarrow> uScale \<Rightarrow> real option \<Rightarrow> real option \<Rightarrow> minmax" where
  "distrStage_noAsinh L p scale dataMin dataMax =
     (if u_distr scale = Some 1 \<or> u_distr scale = Some 2 \<or> u_distr scale = Some 4 then
        (let (dataMin', dataMax') = centerStage p dataMin dataMax
         in rangeNum L (if hardMinOnly p then nonNull (min' p) else dataMin')
                       (if hardMaxOnly p then nonNull (max' p) else dataMax')
                       (rangeConfig p))
      else if u_distr scale = Some 3 then
        rangeLog L dataMin dataMax (case u_log scale of Some b \<Rightarrow> b | None \<Rightarrow> 10) True
      else (ofExtent dataMin, ofExtent dataMax))"

definition rangeFn_noAsinh ::
  "Externals \<Rightarrow> ScaleProps \<Rightarrow> uPlot \<Rightarrow> real option \<Rightarrow> real option \<Rightarrow> string \<Rightarrow> error + minmax" where
  "rangeFn_noAsinh L p u dataMin dataMax key =
     (let scale = scales u key;
          minMax = (ofExtent dataMin, ofExtent dataMax)
      in if \<not> hasFixedRange p \<and> dataMin = None \<and> dataMax = None then Inr minMax
         else (case scale of
                 None \<Rightarrow> Inl TypeError
               | Some sc \<Rightarrow>
                   Inr (guardStage (hardStage p (snapStage p
                          (distrStage_noAsinh L p sc dataMin dataMax))))))"

section \<open>The resolver on a store of arrays\<close>

text \<open>
  \<^verbatim>\<open>rangeFn\<close> once more, with the arrays it works on made explicit. \<^verbatim>\<open>minMax\<close> is a reference
  to an array of two entries; the store holds the arrays made so far, an address being an
  index into it. Line 94 makes a new array; a call of a range helper is taken to return a
  new array and to write to no other (the library is not among the sources); the
  assignments of lines 120 to 136 write into the array \<^verbatim>\<open>minMax\<close> refers to. The props and
  the uPlot instance are only read: the resolver assigns to none of the variables it
  closes over, and to its own parameters \<^verbatim>\<open>dataMin\<close> and \<^verbatim>\<open>dataMax\<close> only.
\<close>

type_synonym store = "minmax list"

definition alloc :: "minmax \<Rightarrow> store \<Rightarrow> nat \<times> store" where
  "alloc v h = (length h, h @ [v])"

text \<open>\<^verbatim>\<open>minMax[0] = x\<close> and \<^verbatim>\<open>minMax[1] = x\<close>.\<close>

definition setMin :: "nat \<Rightarrow> number option \<Rightarrow> store \<Rightarrow> store" where
  "setMin minMax x h = h[minMax := (x, snd (h ! minMax))]"

definition setMax :: "nat \<Rightarrow> number option \<Rightarrow> store \<Rightarrow> store" where
  "setMax minMax x h = h[minMax := (fst (h ! minMax), x)]"

text \<open>Lines 101 to 117: the array \<^verbatim>\<open>minMax\<close> refers to after the branch, and the store.\<close>

definition distr_st ::
  "Externals \<Rightarrow> ScaleProps \<Rightarrow> uScale \<Rightarrow> real option \<Rightarrow> real option \<Rightarrow> nat \<Rightarrow> store
    \<Rightarrow> nat \<times> store" where
  "distr_st L p scale dataMin dataMax minMax h =
     (if u_distr scale = Some 1 \<or> u_distr scale = Some 2 \<or> u_distr scale = Some 4 then
        (let (dataMin', dataMax') = centerStage p dataMin dataMax
         in alloc (rangeNum L (if hardMinOnly p then nonNull (min' p) else dataMin')
                              (if hardMaxOnly p then nonNull (max' p) else dataMax')
                              (rangeConfig p)) h)
      else if u_distr scale = Some 3 then
        alloc (rangeLog L dataMin dataMax (case u_log scale of Some b \<Rightarrow> b | None \<Rightarrow> 10) True) h
      else if u_distr scale = Some 4 then
        alloc (rangeAsinh L dataMin dataMax (case u_log scale of Some b \<Rightarrow> b | None \<Rightarrow> 10) False) h
      else (minMax, h))"

text \<open>Lines 119 to 122.\<close>

definition snap_st :: "ScaleProps \<Rightarrow> nat \<Rightarrow> store \<Rightarrow> store" where
  "snap_st p minMax h =
     (if decimals p = Num 0 then
        (let h1 = setMin minMax
                    (Some (onFinite (\<lambda>x. incrRoundDn x 1) (numberOf (fst (h ! minMax))))) h
         in setMax minMax
              (Some (onFinite (\<lambda>x. incrRoundUp x 1) (numberOf (snd (h1 ! minMax))))) h1)
      else h)"

text \<open>Lines 125 to 131.\<close>

definition hard_st :: "ScaleProps \<Rightarrow> nat \<Rightarrow> store \<Rightarrow> store" where
  "hard_st p minMax h =
     (let h1 = (if hardMinOnly p then setMin minMax (ofExtent (nonNull (min' p))) h else h)
      in if hardMaxOnly p then setMax minMax (ofExtent (nonNull (max' p))) h1 else h1)"

text \<open>Lines 134 to 137.\<close>

definition guard_st :: "nat \<Rightarrow> store \<Rightarrow> store" where
  "guard_st minMax h =
     (if jsGe (numberOf (fst (h ! minMax))) (numberOf (snd (h ! minMax)))
      then setMax minMax (Some (Finite 100)) (setMin minMax (Some (Finite 0)) h)
      else h)"

text \<open>The call: the reference it returns, or the error it throws, and the store it leaves.\<close>

definition rangeFn_st ::
  "Externals \<Rightarrow> ScaleProps \<Rightarrow> uPlot \<Rightarrow> real option \<Rightarrow> real option \<Rightarrow> string \<Rightarrow> store
    \<Rightarrow> (error + nat) \<times> store" where
  "rangeFn_st L p u dataMin dataMax key h =
     (let scale = scales u key;
          (minMax, h0) = alloc (ofExtent dataMin, ofExtent dataMax) h
      in if \<not> hasFixedRange p \<and> dataMin = None \<and> dataMax = None then (Inr minMax, h0)
         else (case scale of
                 None \<Rightarrow> (Inl TypeError, h0)
               | Some sc \<Rightarrow>
                   (let (minMax1, h1) = distr_st L p sc dataMin dataMax minMax h0;
                        h2 = snap_st p minMax1 h1;
                        h3 = hard_st p minMax1 h2;
                        h4 = guard_st minMax1 h3
                    in (Inr minMax1, h4))))"

text \<open>What a call returns, read off the store it leaves.\<close>

fun resultIn :: "store \<Rightarrow> error + nat \<Rightarrow> error + minmax" where
  "resultIn h (Inl e) = Inl e"
| "resultIn h (Inr a) = Inr (h ! a)"

section \<open>Sample inputs\<close>

text \<open>
  A range is symmetric about zero when \<^verbatim>\<open>min == -max\<close> holds of its two numbers.
\<close>

definition symmetric :: "minmax \<Rightarrow> bool" where
  "symmetric minMax =
     (case minMax of (Some a, Some b) \<Rightarrow> a \<noteq> NaN \<and> a = jsNeg b | _ \<Rightarrow> False)"

text \<open>
  Concrete inputs to evaluate the model on. \<open>baseProps\<close> is a scale with nothing
  configured; \<open>plotWith d\<close> is a uPlot instance whose scale \<^verbatim>\<open>y\<close> has the discriminator \<open>d\<close>
  and uPlot's default base 10. \<open>sampleLib\<close> is one instance of the imported functions: its
  \<open>rangeNum\<close> pads each side by the configured share of the span and keeps the result
  within the hard limits, its logarithmic helpers return the extent unchanged, and a unit
  is boolean when it starts with \<^verbatim>\<open>bool\<close>. \<open>nanLib\<close> is the sample library with a \<open>rangeLog\<close>
  that returns \<^verbatim>\<open>[NaN, NaN]\<close>.
\<close>

definition baseProps :: ScaleProps where
  "baseProps =
     \<lparr>scaleKey = ''y'', isTime = None, min' = Undefined, max' = Undefined,
      softMin = Undefined, softMax = Undefined, range' = None, distribution = None,
      orientation = 1, direction = 1, log' = None, linearThreshold = None,
      centeredZero = None, decimals = Undefined\<rparr>"

definition plotWith :: "nat \<Rightarrow> uPlot" where
  "plotWith d = \<lparr>scales = [''y'' \<mapsto> \<lparr>u_distr = Some d, u_log = Some 10\<rparr>]\<rparr>"

fun aboveHard :: "xnum \<Rightarrow> real \<Rightarrow> real" where
  "aboveHard (Fin h) x = max h x"
| "aboveHard NegInf x = x"
| "aboveHard PosInf x = x"

fun belowHard :: "xnum \<Rightarrow> real \<Rightarrow> real" where
  "belowHard (Fin h) x = min h x"
| "belowHard NegInf x = x"
| "belowHard PosInf x = x"

definition paddedRange :: "real option \<Rightarrow> real option \<Rightarrow> RangeConfig \<Rightarrow> minmax" where
  "paddedRange a b cfg =
     (let lo = toNumber a; hi = toNumber b; delta = hi - lo
      in (Some (Finite (aboveHard (hard (min_cfg cfg)) (lo - pad (min_cfg cfg) * delta))),
          Some (Finite (belowHard (hard (max_cfg cfg)) (hi + pad (max_cfg cfg) * delta)))))"

definition sampleLib :: Externals where
  "sampleLib =
     \<lparr>rangeNum = paddedRange,
      rangeLog = (\<lambda>a b base fullMags. (ofExtent a, ofExtent b)),
      rangeAsinh = (\<lambda>a b base fullMags. (ofExtent a, ofExtent b)),
      isBooleanUnit = (\<lambda>unit. take 4 unit = ''bool'')\<rparr>"


section \<open>Facts about the stages\<close>

lemma hardMinOnly_Num: "hardMinOnly p \<Longrightarrow> \<exists>h. min' p = Num h"
  by (cases "min' p") (simp_all add: hardMinOnly_def)

lemma hardMaxOnly_Num: "hardMaxOnly p \<Longrightarrow> \<exists>h. max' p = Num h"
  by (cases "max' p") (simp_all add: hardMaxOnly_def)

lemma rangeFn_scale:
  "scales u key = Some sc \<Longrightarrow> \<not> noData p dataMin dataMax \<Longrightarrow>
   rangeFn L p u dataMin dataMax key = Inr (guardStage (beforeGuard L p sc dataMin dataMax))"
  by (auto simp add: rangeFn_def noData_def)






lemma snapStage_symmetric: "symmetric mm \<Longrightarrow> symmetric (snapStage p mm)"
proof (cases mm)
  case (Pair a b)
  assume s: "symmetric mm"
  then obtain x y where xy: "a = Some x" "b = Some y" "x \<noteq> NaN" "x = jsNeg y"
    using Pair by (auto simp add: symmetric_def split: option.splits)
  show ?thesis
    using Pair xy
    by (cases y) (simp_all add: symmetric_def snapStage_def incrRoundDn_def incrRoundUp_def ceiling_def)
qed

lemma snapStage_zero:
  "decimals p = Num 0 \<Longrightarrow> snapStage p mm = (Some (snapMin (fst mm)), Some (snapMax (snd mm)))"
  by (simp add: snapStage_def)

lemma sample_scale: "scales (plotWith d) ''y'' = Some \<lparr>u_distr = Some d, u_log = Some 10\<rparr>"
  by (simp add: plotWith_def)

lemma optMinMax_absent_a: "isNullish a \<Longrightarrow> optMinMax t a b = b"
  by (cases a) (simp_all add: optMinMax_def)

lemma optMinMax_absent_b: "isNullish b \<Longrightarrow> optMinMax t (Num x) b = Num x"
  by (cases b) (simp_all add: optMinMax_def)

lemma optMinMax_both: "optMinMax t (Num x) (Num y) = Num (if t = MinTag then min x y else max x y)"
  by (simp add: optMinMax_def min_def max_def)

lemma hardMinOnly_cong: "min' p1 = min' p2 \<Longrightarrow> softMin p1 = softMin p2 \<Longrightarrow> hardMinOnly p1 = hardMinOnly p2"
  by (simp add: hardMinOnly_def)

lemma hardMaxOnly_cong: "max' p1 = max' p2 \<Longrightarrow> softMax p1 = softMax p2 \<Longrightarrow> hardMaxOnly p1 = hardMaxOnly p2"
  by (simp add: hardMaxOnly_def)

lemma rangeFn_reads:
  assumes "scales u1 key = scales u2 key"
    and "min' p1 = min' p2" and "max' p1 = max' p2"
    and "softMin p1 = softMin p2" and "softMax p1 = softMax p2"
    and "centeredZero p1 = centeredZero p2" and "decimals p1 = decimals p2"
  shows "rangeFn L p1 u1 dataMin dataMax key = rangeFn L p2 u2 dataMin dataMax key"
proof -
  have a: "hardMinOnly p1 = hardMinOnly p2" using assms(2,4) by (rule hardMinOnly_cong)
  have b: "hardMaxOnly p1 = hardMaxOnly p2" using assms(3,5) by (rule hardMaxOnly_cong)
  have c: "rangeConfig p1 = rangeConfig p2"
    by (simp only: rangeConfig_def assms(2,3,4,5))
  have z: "centerStage p1 dataMin dataMax = centerStage p2 dataMin dataMax"
    by (simp only: centerStage_def assms(6))
  have d: "distrStage L p1 sc dataMin dataMax = distrStage L p2 sc dataMin dataMax" for sc
    by (simp only: distrStage_def a b c z assms(2,3))
  have e: "snapStage p1 mm = snapStage p2 mm" for mm
    by (simp only: snapStage_def assms(7))
  have f: "hardStage p1 mm = hardStage p2 mm" for mm
    by (simp only: hardStage_def a b assms(2,3))
  have g: "beforeGuard L p1 sc dataMin dataMax = beforeGuard L p2 sc dataMin dataMax" for sc
    by (simp only: beforeGuard_def d e f)
  have h: "hasFixedRange p1 = hasFixedRange p2"
    by (simp only: hasFixedRange_def a b)
  show ?thesis
    by (simp only: rangeFn_def h g assms(1))
qed

lemma distrStage_noAsinh_eq:
  "distrStage L p sc dataMin dataMax = distrStage_noAsinh L p sc dataMin dataMax"
  by (simp add: distrStage_def distrStage_noAsinh_def)

section \<open>Facts about the store\<close>

text \<open>
  Each step of the resolver on the store does to the array \<^verbatim>\<open>minMax\<close> refers to what the
  stage of the same name does to a range, and leaves every array at a lower address as it
  is. So a call returns a reference to an array made during the call that holds the range
  \<open>rangeFn\<close> computes, and leaves the arrays that were in the store as they were.
\<close>

lemma setMin_sound:
  "a < length h \<Longrightarrow>
   setMin a x h ! a = (x, snd (h ! a)) \<and> length (setMin a x h) = length h \<and>
   take a (setMin a x h) = take a h"
  by (simp add: setMin_def)

lemma setMax_sound:
  "a < length h \<Longrightarrow>
   setMax a x h ! a = (fst (h ! a), x) \<and> length (setMax a x h) = length h \<and>
   take a (setMax a x h) = take a h"
  by (simp add: setMax_def)

lemma snap_st_sound:
  assumes "a < length h"
  shows "snap_st p a h ! a = snapStage p (h ! a) \<and> length (snap_st p a h) = length h \<and>
         take a (snap_st p a h) = take a h"
proof (cases "decimals p = Num 0")
  case False
  then show ?thesis by (simp add: snap_st_def snapStage_def)
next
  case True
  let ?h1 = "setMin a (Some (snapMin (fst (h ! a)))) h"
  have 1: "?h1 ! a = (Some (snapMin (fst (h ! a))), snd (h ! a))" "length ?h1 = length h"
          "take a ?h1 = take a h"
    using setMin_sound [OF assms] by simp_all
  then have 2: "a < length ?h1" using assms by simp
  show ?thesis
    using True 1 setMax_sound [OF 2]
    by (simp add: snap_st_def snapStage_def Let_def)
qed

lemma hard_st_sound:
  assumes "a < length h"
  shows "hard_st p a h ! a = hardStage p (h ! a) \<and> length (hard_st p a h) = length h \<and>
         take a (hard_st p a h) = take a h"
proof -
  let ?h1 = "if hardMinOnly p then setMin a (ofExtent (nonNull (min' p))) h else h"
  have 1: "?h1 ! a = (if hardMinOnly p then ofExtent (nonNull (min' p)) else fst (h ! a), snd (h ! a))"
          "length ?h1 = length h" "take a ?h1 = take a h"
    using setMin_sound [OF assms] by simp_all
  then have 2: "a < length ?h1" using assms by simp
  have 3: "hard_st p a h = (if hardMaxOnly p then setMax a (ofExtent (nonNull (max' p))) ?h1 else ?h1)"
    by (simp add: hard_st_def Let_def)
  show ?thesis
    unfolding 3 using 1 setMax_sound [OF 2]
    by (simp add: hardStage_def Let_def)
qed

lemma guard_st_sound:
  assumes "a < length h"
  shows "guard_st a h ! a = guardStage (h ! a) \<and> length (guard_st a h) = length h \<and>
         take a (guard_st a h) = take a h"
proof -
  let ?h1 = "setMin a (Some (Finite 0)) h"
  have 1: "?h1 ! a = (Some (Finite 0), snd (h ! a))" "length ?h1 = length h" "take a ?h1 = take a h"
    using setMin_sound [OF assms] by simp_all
  then have 2: "a < length ?h1" using assms by simp
  show ?thesis
    using 1 setMax_sound [OF 2]
    by (simp add: guard_st_def guardStage_def)
qed

lemma distr_st_sound:
  assumes "distr_st L p sc dataMin dataMax m h = (a, h1)"
    and "m < length h" and "h ! m = (ofExtent dataMin, ofExtent dataMax)"
  shows "m \<le> a \<and> a < length h1 \<and> h1 ! a = distrStage L p sc dataMin dataMax \<and>
         take (length h) h1 = h"
  using assms
  by (auto simp add: distr_st_def distrStage_def alloc_def Let_def split: if_splits prod.splits)

lemma rangeFn_st_sound:
  assumes "rangeFn_st L p u dataMin dataMax key h = (res, h')"
  shows "take (length h) h' = h \<and> resultIn h' res = rangeFn L p u dataMin dataMax key \<and>
         (\<forall>a. res = Inr a \<longrightarrow> length h \<le> a \<and> a < length h')"
proof -
  let ?m = "length h"
  let ?h0 = "h @ [(ofExtent dataMin, ofExtent dataMax)]"
  show ?thesis
  proof (cases "\<not> hasFixedRange p \<and> dataMin = None \<and> dataMax = None")
    case True
    with assms have "res = Inr ?m" "h' = ?h0"
      by (simp_all add: rangeFn_st_def alloc_def)
    with True show ?thesis by (simp add: rangeFn_def)
  next
    case False
    show ?thesis
    proof (cases "scales u key")
      case None
      with False assms have "res = Inl TypeError" "h' = ?h0"
        by (auto simp add: rangeFn_st_def alloc_def)
      with False None show ?thesis by (auto simp add: rangeFn_def)
    next
      case (Some sc)
      obtain a h1 where d: "distr_st L p sc dataMin dataMax ?m ?h0 = (a, h1)"
        by (cases "distr_st L p sc dataMin dataMax ?m ?h0")
      have m: "?m < length ?h0" "?h0 ! ?m = (ofExtent dataMin, ofExtent dataMax)" by simp_all
      from distr_st_sound [OF d m]
      have d1: "?m \<le> a" "a < length h1" "h1 ! a = distrStage L p sc dataMin dataMax"
               "take (length ?h0) h1 = ?h0" by simp_all
      have t1: "take ?m h1 = h"
      proof -
        have "take ?m h1 = take ?m (take (length ?h0) h1)" by simp
        also have "\<dots> = take ?m ?h0" using d1(4) by simp
        finally show ?thesis by simp
      qed
      let ?h2 = "snap_st p a h1"
      let ?h3 = "hard_st p a ?h2"
      let ?h4 = "guard_st a ?h3"
      have s2: "?h2 ! a = snapStage p (h1 ! a)" "length ?h2 = length h1" "take a ?h2 = take a h1"
        using snap_st_sound [OF d1(2)] by simp_all
      have a2: "a < length ?h2" using s2(2) d1(2) by simp
      have s3: "?h3 ! a = hardStage p (?h2 ! a)" "length ?h3 = length ?h2" "take a ?h3 = take a ?h2"
        using hard_st_sound [OF a2] by simp_all
      have a3: "a < length ?h3" using s3(2) a2 by simp
      have s4: "?h4 ! a = guardStage (?h3 ! a)" "length ?h4 = length ?h3" "take a ?h4 = take a ?h3"
        using guard_st_sound [OF a3] by simp_all
      from False Some d assms have r: "res = Inr a" "h' = ?h4"
        by (auto simp add: rangeFn_st_def alloc_def Let_def)
      have c: "h' ! a = guardStage (beforeGuard L p sc dataMin dataMax)"
        by (simp add: r s4 s3 s2 d1 beforeGuard_def)
      have "take a h' = take a h1" by (simp add: r s4 s3 s2)
      then have "take ?m (take a h') = take ?m (take a h1)" by simp
      then have f: "take ?m h' = h" using d1(1) t1 by (simp add: min_def)
      have l: "a < length h'" by (simp add: r s4 s3 s2 d1)
      from False Some c f l r d1(1) show ?thesis
        by (auto simp add: rangeFn_def)
    qed
  qed
qed

section \<open>The hard override (C1)\<close>

text \<open>
  C1, as the spec has it: with \<^verbatim>\<open>hardMin\<close> present and \<^verbatim>\<open>softMin\<close> absent, the minimum the
  resolver returns is \<^verbatim>\<open>hardMin\<close>, whatever the extent. Two other steps of the
  resolver stand against it. On a call with no data, a scale with a hard minimum 5 and
  nothing else configured returns \<^verbatim>\<open>[null, null]\<close> by the early return of line 97, which only
  a hard-only bound on both sides switches off. And the guard of line 134 comes after the
  override: with the hard bounds 5 and 3 (a configuration the builder does not validate)
  the overridden range is \<^verbatim>\<open>[5, 3]\<close> and the result \<^verbatim>\<open>[0, 100]\<close>, whatever \<^verbatim>\<open>rangeNum\<close> gave.
\<close>

theorem hard_override_counterexample:
  "hardMinOnly (baseProps\<lparr>min' := Num 5\<rparr>) \<and>
   min' (baseProps\<lparr>min' := Num 5\<rparr>) = Num 5 \<and>
   rangeFn sampleLib (baseProps\<lparr>min' := Num 5\<rparr>) (plotWith 1) None None ''y'' = Inr (None, None) \<and>
   hardMinOnly (baseProps\<lparr>min' := Num 5, max' := Num 3\<rparr>) \<and>
   min' (baseProps\<lparr>min' := Num 5, max' := Num 3\<rparr>) = Num 5 \<and>
   rangeFn sampleLib (baseProps\<lparr>min' := Num 5, max' := Num 3\<rparr>) (plotWith 1) (Some 1) (Some 2) ''y''
     = Inr (Some (Finite 0), Some (Finite 100))"
  by (simp add: rangeFn_def plotWith_def beforeGuard_def hardStage_def guardStage_def
      hasFixedRange_def hardMinOnly_def hardMaxOnly_def baseProps_def Let_def)

text \<open>
  C1, amended: for a call that is not the no-data call (and whose scale exists on the uPlot
  instance), a hard-only minimum is the minimum after the hard override, whatever the
  extent, the padding and the decimal rounding gave; the resolver returns it as the minimum
  unless the guard against degenerate ranges fires (the hard minimum is not below the
  maximum resolved so far), in which case the result is \<^verbatim>\<open>[0, 100]\<close>. The same holds of a
  hard-only maximum.
\<close>

theorem hard_override:
  assumes "scales u key = Some sc" and "\<not> noData p dataMin dataMax"
  shows "(hardMinOnly p \<longrightarrow>
            (\<exists>h. min' p = Num h \<and> fst (beforeGuard L p sc dataMin dataMax) = Some (Finite h) \<and>
                 rangeFn L p u dataMin dataMax key =
                   Inr (if jsGe (Finite h) (numberOf (snd (beforeGuard L p sc dataMin dataMax)))
                        then (Some (Finite 0), Some (Finite 100))
                        else (Some (Finite h), snd (beforeGuard L p sc dataMin dataMax))))) \<and>
         (hardMaxOnly p \<longrightarrow>
            (\<exists>h. max' p = Num h \<and> snd (beforeGuard L p sc dataMin dataMax) = Some (Finite h) \<and>
                 rangeFn L p u dataMin dataMax key =
                   Inr (if jsGe (numberOf (fst (beforeGuard L p sc dataMin dataMax))) (Finite h)
                        then (Some (Finite 0), Some (Finite 100))
                        else (fst (beforeGuard L p sc dataMin dataMax), Some (Finite h)))))"
proof (intro conjI impI)
  assume h: "hardMinOnly p"
  then obtain x where x: "min' p = Num x" using hardMinOnly_Num by blast
  have f: "fst (beforeGuard L p sc dataMin dataMax) = Some (Finite x)"
    using h x by (simp add: beforeGuard_def hardStage_def Let_def)
  show "\<exists>h. min' p = Num h \<and> fst (beforeGuard L p sc dataMin dataMax) = Some (Finite h) \<and>
                 rangeFn L p u dataMin dataMax key =
                   Inr (if jsGe (Finite h) (numberOf (snd (beforeGuard L p sc dataMin dataMax)))
                        then (Some (Finite 0), Some (Finite 100))
                        else (Some (Finite h), snd (beforeGuard L p sc dataMin dataMax)))"
    using x f rangeFn_scale [OF assms, of L]
    by (cases "beforeGuard L p sc dataMin dataMax") (auto simp add: guardStage_def)
next
  assume h: "hardMaxOnly p"
  then obtain x where x: "max' p = Num x" using hardMaxOnly_Num by blast
  have f: "snd (beforeGuard L p sc dataMin dataMax) = Some (Finite x)"
    using h x by (simp add: beforeGuard_def hardStage_def Let_def)
  show "\<exists>h. max' p = Num h \<and> snd (beforeGuard L p sc dataMin dataMax) = Some (Finite h) \<and>
                 rangeFn L p u dataMin dataMax key =
                   Inr (if jsGe (numberOf (fst (beforeGuard L p sc dataMin dataMax))) (Finite h)
                        then (Some (Finite 0), Some (Finite 100))
                        else (fst (beforeGuard L p sc dataMin dataMax), Some (Finite h)))"
    using x f rangeFn_scale [OF assms, of L]
    by (cases "beforeGuard L p sc dataMin dataMax") (auto simp add: guardStage_def)
qed

text \<open>
  At a hard minimum 0 and the extent \<^verbatim>\<open>[1, 2]\<close> on a linear scale, the sample library pads
  the maximum to 2.2 and the minimum stays the hard one.
\<close>

theorem hard_override_witness:
  "hardMinOnly (baseProps\<lparr>min' := Num 0\<rparr>) \<and>
   \<not> noData (baseProps\<lparr>min' := Num 0\<rparr>) (Some 1) (Some 2) \<and>
   rangeFn sampleLib (baseProps\<lparr>min' := Num 0\<rparr>) (plotWith 1) (Some 1) (Some 2) ''y''
     = Inr (Some (Finite 0), Some (Finite (11 / 5)))"
proof -
  have n: "\<not> noData (baseProps\<lparr>min' := Num 0\<rparr>) (Some 1) (Some 2)"
    by (simp add: noData_def)
  have h: "hardMinOnly (baseProps\<lparr>min' := Num 0\<rparr>)"
    by (simp add: hardMinOnly_def baseProps_def)
  have b: "snd (beforeGuard sampleLib (baseProps\<lparr>min' := Num 0\<rparr>)
             \<lparr>u_distr = Some 1, u_log = Some 10\<rparr> (Some 1) (Some 2)) = Some (Finite (11 / 5))"
    by (simp add: beforeGuard_def hardStage_def snapStage_def distrStage_def centerStage_def
        hardMinOnly_def hardMaxOnly_def baseProps_def sampleLib_def paddedRange_def
        rangeConfig_def Let_def)
  from hard_override [OF sample_scale [of 1] n, of sampleLib] h b n show ?thesis
    by (auto simp add: baseProps_def)
qed

section \<open>The call with no data (C2)\<close>

text \<open>
  C2: for the extent \<^verbatim>\<open>[null, null]\<close>, unless both ends have a hard-only bound, the resolver
  returns \<^verbatim>\<open>[null, null]\<close> at once. None of the later steps runs: the result is the same for
  every library, every uPlot instance (also one that has no scale under the key), every
  key and every other setting of the props.
\<close>

theorem no_data_short_circuit:
  "\<not> hasFixedRange p \<Longrightarrow> rangeFn L p u None None key = Inr (None, None)"
  by (simp add: rangeFn_def)

theorem no_data_short_circuit_witness:
  "\<not> hasFixedRange (baseProps\<lparr>min' := Num 5, decimals := Num 0\<rparr>) \<and>
   rangeFn sampleLib (baseProps\<lparr>min' := Num 5, decimals := Num 0\<rparr>) \<lparr>scales = Map.empty\<rparr> None None ''y''
     = Inr (None, None)"
proof -
  have h: "\<not> hasFixedRange (baseProps\<lparr>min' := Num 5, decimals := Num 0\<rparr>)"
    by (simp add: hasFixedRange_def hardMaxOnly_def baseProps_def)
  from h no_data_short_circuit [OF h] show ?thesis by simp
qed

section \<open>The guard against degenerate ranges (C3)\<close>




section \<open>Centering on zero (C4)\<close>

text \<open>
  C4, as the spec has it: with \<^verbatim>\<open>centeredZero\<close> on a scale that is not logarithmic, the
  extent is replaced by \<open>[-m, m]\<close> before padding, and the range stays symmetric about zero
  at every point before the hard override. The second half fails where a hard-only bound
  is configured: the resolver then passes the hard value, not the centered one, to
  \<^verbatim>\<open>uPlot.rangeNum\<close> (line 111). With a hard minimum 0 and the extent \<^verbatim>\<open>[-3, 7]\<close> the padded
  range of the sample library is \<^verbatim>\<open>[0, 7.7]\<close>.
\<close>

theorem centered_zero_counterexample:
  "centeredZero (baseProps\<lparr>centeredZero := Some True, min' := Num 0\<rparr>) = Some True \<and>
   distrStage sampleLib (baseProps\<lparr>centeredZero := Some True, min' := Num 0\<rparr>)
     \<lparr>u_distr = Some 1, u_log = Some 10\<rparr> (Some (- 3)) (Some 7)
     = (Some (Finite 0), Some (Finite (77 / 10))) \<and>
   \<not> symmetric (distrStage sampleLib (baseProps\<lparr>centeredZero := Some True, min' := Num 0\<rparr>)
     \<lparr>u_distr = Some 1, u_log = Some 10\<rparr> (Some (- 3)) (Some 7))"
  by (simp add: distrStage_def centerStage_def centered_def hardMinOnly_def hardMaxOnly_def
      baseProps_def sampleLib_def paddedRange_def rangeConfig_def symmetric_def Let_def)

text \<open>
  The same holds for every \<^verbatim>\<open>rangeNum\<close> that keeps the minimum at or above a hard minimum
  \<open>h\<close> it is passed and returns a maximum above \<open>- h\<close>.
\<close>

lemma centered_zero_hard_min_asymmetric:
  assumes "centeredZero p = Some True" and "u_distr sc = Some 1 \<or> u_distr sc = Some 2 \<or> u_distr sc = Some 4"
    and "hardMinOnly p" and "min' p = Num h" and "\<not> hardMaxOnly p"
    and "rangeNum L (Some h) (Some (max \<bar>toNumber dataMin\<bar> \<bar>toNumber dataMax\<bar>)) (rangeConfig p)
           = (Some (Finite a), Some (Finite b))"
    and "h \<le> a" and "- h < b"
  shows "\<not> symmetric (distrStage L p sc dataMin dataMax)"
  using assms by (simp add: distrStage_def centerStage_def centered_def Let_def symmetric_def)

text \<open>
  C4, amended: with \<^verbatim>\<open>centeredZero\<close> on a scale of discriminator 1, 2 or 4, the extent is
  first replaced by \<open>[-m, m]\<close>, \<open>m\<close> the larger of \<open>|extent.min|\<close> and \<open>|extent.max|\<close> (a
  \<^verbatim>\<open>null\<close> counting as 0), so \<^verbatim>\<open>[-3, 7]\<close> becomes \<^verbatim>\<open>[-7, 7]\<close>; this symmetric extent is what
  is padded on each side that has no hard-only bound, a hard-only side passing its hard
  value instead; and the decimal snap keeps a range symmetric that \<^verbatim>\<open>rangeNum\<close> returned
  symmetric. Whether the padded range is symmetric is up to \<^verbatim>\<open>rangeNum\<close> and the bounds.
\<close>

theorem centered_zero_extent:
  assumes "centeredZero p = Some True"
    and "u_distr sc = Some 1 \<or> u_distr sc = Some 2 \<or> u_distr sc = Some 4"
  shows "centerStage p dataMin dataMax =
           (Some (- max \<bar>toNumber dataMin\<bar> \<bar>toNumber dataMax\<bar>),
            Some (max \<bar>toNumber dataMin\<bar> \<bar>toNumber dataMax\<bar>)) \<and>
         centerStage p (Some (- 3)) (Some 7) = (Some (- 7), Some 7) \<and>
         symmetric (ofExtents (centerStage p dataMin dataMax)) \<and>
         distrStage L p sc dataMin dataMax =
           rangeNum L
             (if hardMinOnly p then nonNull (min' p)
              else Some (- max \<bar>toNumber dataMin\<bar> \<bar>toNumber dataMax\<bar>))
             (if hardMaxOnly p then nonNull (max' p)
              else Some (max \<bar>toNumber dataMin\<bar> \<bar>toNumber dataMax\<bar>))
             (rangeConfig p) \<and>
         (symmetric (distrStage L p sc dataMin dataMax) \<longrightarrow>
            symmetric (snapStage p (distrStage L p sc dataMin dataMax)))"
proof -
  have c: "centerStage p dataMin dataMax =
           (Some (- max \<bar>toNumber dataMin\<bar> \<bar>toNumber dataMax\<bar>),
            Some (max \<bar>toNumber dataMin\<bar> \<bar>toNumber dataMax\<bar>))" for dataMin dataMax
    using assms(1) by (simp add: centerStage_def centered_def Let_def)
  have e: "centerStage p (Some (- 3)) (Some 7) = (Some (- 7), Some 7)"
    by (simp add: c)
  have s: "symmetric (ofExtents (centerStage p dataMin dataMax))"
    by (simp add: c symmetric_def ofExtents_def)
  have d: "distrStage L p sc dataMin dataMax =
           rangeNum L
             (if hardMinOnly p then nonNull (min' p)
              else Some (- max \<bar>toNumber dataMin\<bar> \<bar>toNumber dataMax\<bar>))
             (if hardMaxOnly p then nonNull (max' p)
              else Some (max \<bar>toNumber dataMin\<bar> \<bar>toNumber dataMax\<bar>))
             (rangeConfig p)"
    using assms(2) by (simp add: distrStage_def c)
  from c e s d snapStage_symmetric show ?thesis by blast
qed

text \<open>
  A symmetric-log scale (discriminator 4) with whole decimals and the extent \<^verbatim>\<open>[-3, 7]\<close>:
  centered to \<^verbatim>\<open>[-7, 7]\<close>, padded by the sample library to \<^verbatim>\<open>[-8.4, 8.4]\<close>, snapped to
  \<^verbatim>\<open>[-9, 9]\<close>.
\<close>

theorem centered_zero_extent_witness:
  "centeredZero (baseProps\<lparr>centeredZero := Some True, decimals := Num 0\<rparr>) = Some True \<and>
   centerStage (baseProps\<lparr>centeredZero := Some True, decimals := Num 0\<rparr>) (Some (- 3)) (Some 7)
     = (Some (- 7), Some 7) \<and>
   distrStage sampleLib (baseProps\<lparr>centeredZero := Some True, decimals := Num 0\<rparr>)
     \<lparr>u_distr = Some 4, u_log = Some 10\<rparr> (Some (- 3)) (Some 7)
     = (Some (Finite (- (42 / 5))), Some (Finite (42 / 5))) \<and>
   snapStage (baseProps\<lparr>centeredZero := Some True, decimals := Num 0\<rparr>)
     (distrStage sampleLib (baseProps\<lparr>centeredZero := Some True, decimals := Num 0\<rparr>)
        \<lparr>u_distr = Some 4, u_log = Some 10\<rparr> (Some (- 3)) (Some 7))
     = (Some (Finite (- 9)), Some (Finite 9))"
proof -
  let ?p = "baseProps\<lparr>centeredZero := Some True, decimals := Num 0\<rparr>"
  let ?sc = "\<lparr>u_distr = Some 4, u_log = Some (10::real)\<rparr>"
  have a: "centeredZero ?p = Some True" by simp
  have b: "u_distr ?sc = Some 1 \<or> u_distr ?sc = Some 2 \<or> u_distr ?sc = Some 4" by simp
  have h: "\<not> hardMinOnly ?p" "\<not> hardMaxOnly ?p"
    by (simp_all add: hardMinOnly_def hardMaxOnly_def baseProps_def)
  have rc: "rangeConfig ?p = \<lparr>min_cfg = \<lparr>pad = 1 / 10, hard = NegInf, soft = 0, mode = 3\<rparr>,
                             max_cfg = \<lparr>pad = 1 / 10, hard = PosInf, soft = 0, mode = 3\<rparr>\<rparr>"
    by (simp add: rangeConfig_def baseProps_def)
  have d: "distrStage sampleLib ?p ?sc (Some (- 3)) (Some 7)
             = (Some (Finite (- (42 / 5))), Some (Finite (42 / 5)))"
    using centered_zero_extent [OF a b, of "Some (- 3)" "Some 7" sampleLib] h
    by (simp add: rc sampleLib_def paddedRange_def Let_def)
  have s: "snapStage ?p (Some (Finite (- (42 / 5))), Some (Finite (42 / 5)))
             = (Some (Finite (- 9)), Some (Finite 9))"
    by (simp add: snapStage_def incrRoundDn_def incrRoundUp_def baseProps_def)
  from a centered_zero_extent [OF a b, of "Some (- 3)" "Some 7" sampleLib] d s
  show ?thesis by simp
qed

section \<open>The decimal snap (C5)\<close>

text \<open>
  C5, as the spec has it: with \<^verbatim>\<open>decimals\<close> exactly 0 the returned minimum and maximum are
  integers, the floor and the ceiling of the values before the snap. The hard override
  comes after the snap (lines 125 to 131) and puts a hard-only bound back as it was
  configured: with the hard bounds 0.5 and 1.5 the resolver returns \<^verbatim>\<open>[0.5, 1.5]\<close>,
  whatever \<^verbatim>\<open>rangeNum\<close> gave.
\<close>

theorem decimal_snap_counterexample:
  "decimals (baseProps\<lparr>min' := Num (1 / 2), max' := Num (3 / 2), decimals := Num 0\<rparr>) = Num 0 \<and>
   rangeFn sampleLib (baseProps\<lparr>min' := Num (1 / 2), max' := Num (3 / 2), decimals := Num 0\<rparr>)
     (plotWith 1) (Some 1) (Some (6 / 5)) ''y'' = Inr (Some (Finite (1 / 2)), Some (Finite (3 / 2))) \<and>
   (1 / 2 :: real) \<noteq> of_int \<lfloor>1 / 2 :: real\<rfloor> \<and> (3 / 2 :: real) \<noteq> of_int \<lceil>3 / 2 :: real\<rceil>"
  by (simp add: rangeFn_def plotWith_def guardStage_def beforeGuard_def hardStage_def
      hasFixedRange_def hardMinOnly_def hardMaxOnly_def baseProps_def Let_def)

text \<open>
  C5, amended: with \<^verbatim>\<open>decimals\<close> exactly 0, on a call that reaches the snap (not the no-data
  call, the key naming a scale of the uPlot instance), the snap replaces the minimum by
  its floor and the maximum by its ceiling when they are finite (a \<^verbatim>\<open>null\<close> counting as 0),
  and leaves a \<^verbatim>\<open>NaN\<close> or an infinity the library returned as it is. The resolver then
  returns the fallback \<^verbatim>\<open>[0, 100]\<close> or, side by side: on a side with no hard-only bound
  the snapped value, an integer when the value before the snap was finite; on a side with
  a hard-only bound the hard value as configured, not rounded. With no hard-only bound the
  result is the snapped range, or the fallback when the snapped minimum is at or above
  the snapped maximum; with both bounds hard-only it is the two hard values, or the
  fallback when the hard minimum is at or above the hard maximum.
\<close>

theorem decimal_snap:
  assumes "decimals p = Num 0" and "scales u key = Some sc" and "\<not> noData p dataMin dataMax"
  shows "snapStage p (distrStage L p sc dataMin dataMax) =
           (Some (snapMin (fst (distrStage L p sc dataMin dataMax))),
            Some (snapMax (snd (distrStage L p sc dataMin dataMax)))) \<and>
         (numberOf (fst (distrStage L p sc dataMin dataMax)) = Finite x \<longrightarrow>
            snapMin (fst (distrStage L p sc dataMin dataMax)) = Finite (of_int \<lfloor>x\<rfloor>)) \<and>
         (numberOf (snd (distrStage L p sc dataMin dataMax)) = Finite y \<longrightarrow>
            snapMax (snd (distrStage L p sc dataMin dataMax)) = Finite (of_int \<lceil>y\<rceil>)) \<and>
         (\<exists>r. rangeFn L p u dataMin dataMax key = Inr r \<and>
            (\<not> hardMinOnly p \<longrightarrow>
               (r = fallbackRange \<or> fst r = Some (snapMin (fst (distrStage L p sc dataMin dataMax)))) \<and>
               (numberOf (fst (distrStage L p sc dataMin dataMax)) = Finite x \<longrightarrow>
                  (\<exists>i::int. fst r = Some (Finite (of_int i))))) \<and>
            (\<not> hardMaxOnly p \<longrightarrow>
               (r = fallbackRange \<or> snd r = Some (snapMax (snd (distrStage L p sc dataMin dataMax)))) \<and>
               (numberOf (snd (distrStage L p sc dataMin dataMax)) = Finite y \<longrightarrow>
                  (\<exists>i::int. snd r = Some (Finite (of_int i))))) \<and>
            (hardMinOnly p \<longrightarrow>
               (\<exists>h. min' p = Num h \<and> (r = fallbackRange \<or> fst r = Some (Finite h)))) \<and>
            (hardMaxOnly p \<longrightarrow>
               (\<exists>h. max' p = Num h \<and> (r = fallbackRange \<or> snd r = Some (Finite h)))) \<and>
            (\<not> hardMinOnly p \<and> \<not> hardMaxOnly p \<longrightarrow>
               r = (if jsGe (snapMin (fst (distrStage L p sc dataMin dataMax)))
                            (snapMax (snd (distrStage L p sc dataMin dataMax)))
                    then fallbackRange
                    else (Some (snapMin (fst (distrStage L p sc dataMin dataMax))),
                          Some (snapMax (snd (distrStage L p sc dataMin dataMax)))))) \<and>
            (hardMinOnly p \<and> hardMaxOnly p \<longrightarrow>
               (\<exists>h1 h2. min' p = Num h1 \<and> max' p = Num h2 \<and>
                  r = (if h1 \<ge> h2 then fallbackRange else (Some (Finite h1), Some (Finite h2))))))"
proof -
  let ?d = "distrStage L p sc dataMin dataMax"
  let ?lo = "snapMin (fst ?d)" and ?hi = "snapMax (snd ?d)"
  let ?b = "beforeGuard L p sc dataMin dataMax"
  let ?g = "guardStage ?b"
  have s: "snapStage p ?d = (Some ?lo, Some ?hi)"
    using assms(1) by (rule snapStage_zero)
  have fx: "numberOf (fst ?d) = Finite x \<longrightarrow> ?lo = Finite (of_int \<lfloor>x\<rfloor>)"
    by (simp add: incrRoundDn_def)
  have fy: "numberOf (snd ?d) = Finite y \<longrightarrow> ?hi = Finite (of_int \<lceil>y\<rceil>)"
    by (simp add: incrRoundUp_def)
  have r: "rangeFn L p u dataMin dataMax key = Inr ?g"
    using assms(2,3) by (rule rangeFn_scale)
  have b: "?b = (if hardMinOnly p then ofExtent (nonNull (min' p)) else Some ?lo,
                 if hardMaxOnly p then ofExtent (nonNull (max' p)) else Some ?hi)"
    by (simp add: beforeGuard_def hardStage_def s Let_def)
  have g: "?g = fallbackRange \<or> ?g = ?b"
    by (simp add: guardStage_def)
  have z: "\<exists>i::int. Some (Finite 0) = Some (Finite (of_int i))"
          "\<exists>i::int. Some (Finite 100) = Some (Finite (of_int i))"
    by (rule exI [of _ 0], simp, rule exI [of _ 100], simp)
  have m0: "\<not> hardMinOnly p \<longrightarrow>
      (?g = fallbackRange \<or> fst ?g = Some ?lo) \<and>
      (numberOf (fst ?d) = Finite x \<longrightarrow> (\<exists>i::int. fst ?g = Some (Finite (of_int i))))"
  proof (intro impI conjI)
    assume n: "\<not> hardMinOnly p"
    then have f: "fst ?b = Some ?lo" by (simp add: b)
    with g show "?g = fallbackRange \<or> fst ?g = Some ?lo" by auto
    assume "numberOf (fst ?d) = Finite x"
    with fx have "?lo = Finite (of_int \<lfloor>x\<rfloor>)" by blast
    with f g z(1) show "\<exists>i::int. fst ?g = Some (Finite (of_int i))"
      by (metis fst_conv)
  qed
  have m1: "\<not> hardMaxOnly p \<longrightarrow>
      (?g = fallbackRange \<or> snd ?g = Some ?hi) \<and>
      (numberOf (snd ?d) = Finite y \<longrightarrow> (\<exists>i::int. snd ?g = Some (Finite (of_int i))))"
  proof (intro impI conjI)
    assume n: "\<not> hardMaxOnly p"
    then have f: "snd ?b = Some ?hi" by (simp add: b)
    with g show "?g = fallbackRange \<or> snd ?g = Some ?hi" by auto
    assume "numberOf (snd ?d) = Finite y"
    with fy have "?hi = Finite (of_int \<lceil>y\<rceil>)" by blast
    with f g z(2) show "\<exists>i::int. snd ?g = Some (Finite (of_int i))"
      by (metis snd_conv)
  qed
  have h0: "hardMinOnly p \<longrightarrow> (\<exists>h. min' p = Num h \<and> (?g = fallbackRange \<or> fst ?g = Some (Finite h)))"
  proof
    assume h: "hardMinOnly p"
    then obtain v where v: "min' p = Num v" using hardMinOnly_Num by blast
    with h have "fst ?b = Some (Finite v)" by (simp add: b)
    with g v show "\<exists>h. min' p = Num h \<and> (?g = fallbackRange \<or> fst ?g = Some (Finite h))" by auto
  qed
  have h1: "hardMaxOnly p \<longrightarrow> (\<exists>h. max' p = Num h \<and> (?g = fallbackRange \<or> snd ?g = Some (Finite h)))"
  proof
    assume h: "hardMaxOnly p"
    then obtain v where v: "max' p = Num v" using hardMaxOnly_Num by blast
    with h have "snd ?b = Some (Finite v)" by (simp add: b)
    with g v show "\<exists>h. max' p = Num h \<and> (?g = fallbackRange \<or> snd ?g = Some (Finite h))" by auto
  qed
  have m2: "\<not> hardMinOnly p \<and> \<not> hardMaxOnly p \<longrightarrow>
      ?g = (if jsGe ?lo ?hi then fallbackRange else (Some ?lo, Some ?hi))"
    by (simp add: b guardStage_def)
  have m3: "hardMinOnly p \<and> hardMaxOnly p \<longrightarrow>
      (\<exists>h1 h2. min' p = Num h1 \<and> max' p = Num h2 \<and>
         ?g = (if h1 \<ge> h2 then fallbackRange else (Some (Finite h1), Some (Finite h2))))"
  proof
    assume h: "hardMinOnly p \<and> hardMaxOnly p"
    then obtain v w where v: "min' p = Num v" "max' p = Num w"
      using hardMinOnly_Num hardMaxOnly_Num by blast
    with h have "?g = (if v \<ge> w then fallbackRange else (Some (Finite v), Some (Finite w)))"
      by (simp add: b guardStage_def)
    with v show "\<exists>h1 h2. min' p = Num h1 \<and> max' p = Num h2 \<and>
         ?g = (if h1 \<ge> h2 then fallbackRange else (Some (Finite h1), Some (Finite h2)))" by blast
  qed
  show ?thesis
  proof (intro conjI)
    show "snapStage p ?d = (Some ?lo, Some ?hi)" by (rule s)
    show "numberOf (fst ?d) = Finite x \<longrightarrow> ?lo = Finite (of_int \<lfloor>x\<rfloor>)" by (rule fx)
    show "numberOf (snd ?d) = Finite y \<longrightarrow> ?hi = Finite (of_int \<lceil>y\<rceil>)" by (rule fy)
    show "\<exists>r. rangeFn L p u dataMin dataMax key = Inr r \<and>
            (\<not> hardMinOnly p \<longrightarrow>
               (r = fallbackRange \<or> fst r = Some ?lo) \<and>
               (numberOf (fst ?d) = Finite x \<longrightarrow> (\<exists>i::int. fst r = Some (Finite (of_int i))))) \<and>
            (\<not> hardMaxOnly p \<longrightarrow>
               (r = fallbackRange \<or> snd r = Some ?hi) \<and>
               (numberOf (snd ?d) = Finite y \<longrightarrow> (\<exists>i::int. snd r = Some (Finite (of_int i))))) \<and>
            (hardMinOnly p \<longrightarrow>
               (\<exists>h. min' p = Num h \<and> (r = fallbackRange \<or> fst r = Some (Finite h)))) \<and>
            (hardMaxOnly p \<longrightarrow>
               (\<exists>h. max' p = Num h \<and> (r = fallbackRange \<or> snd r = Some (Finite h)))) \<and>
            (\<not> hardMinOnly p \<and> \<not> hardMaxOnly p \<longrightarrow>
               r = (if jsGe ?lo ?hi then fallbackRange else (Some ?lo, Some ?hi))) \<and>
            (hardMinOnly p \<and> hardMaxOnly p \<longrightarrow>
               (\<exists>h1 h2. min' p = Num h1 \<and> max' p = Num h2 \<and>
                  r = (if h1 \<ge> h2 then fallbackRange else (Some (Finite h1), Some (Finite h2)))))"
      using r m0 m1 h0 h1 m2 m3 by (intro exI [of _ ?g] conjI) assumption+
  qed
qed

text \<open>
  A linear scale with whole decimals and the extent \<^verbatim>\<open>[1, 1.2]\<close>: padded by the sample
  library to \<^verbatim>\<open>[0.98, 1.22]\<close>, snapped to \<^verbatim>\<open>[0, 2]\<close>.
\<close>

theorem decimal_snap_witness:
  "decimals (baseProps\<lparr>decimals := Num 0\<rparr>) = Num 0 \<and>
   \<not> noData (baseProps\<lparr>decimals := Num 0\<rparr>) (Some 1) (Some (6 / 5)) \<and>
   distrStage sampleLib (baseProps\<lparr>decimals := Num 0\<rparr>) \<lparr>u_distr = Some 1, u_log = Some 10\<rparr>
     (Some 1) (Some (6 / 5)) = (Some (Finite (49 / 50)), Some (Finite (61 / 50))) \<and>
   rangeFn sampleLib (baseProps\<lparr>decimals := Num 0\<rparr>) (plotWith 1) (Some 1) (Some (6 / 5)) ''y''
     = Inr (Some (Finite 0), Some (Finite 2))"
proof -
  let ?p = "baseProps\<lparr>decimals := Num 0\<rparr>"
  have a: "decimals ?p = Num 0" by simp
  have n: "\<not> noData ?p (Some 1) (Some (6 / 5))" by (simp add: noData_def)
  have h: "\<not> hardMinOnly ?p" "\<not> hardMaxOnly ?p"
    by (simp_all add: hardMinOnly_def hardMaxOnly_def baseProps_def)
  have d: "distrStage sampleLib ?p \<lparr>u_distr = Some 1, u_log = Some 10\<rparr> (Some 1) (Some (6 / 5))
             = (Some (Finite (49 / 50)), Some (Finite (61 / 50)))"
    by (simp add: distrStage_def centerStage_def hardMinOnly_def hardMaxOnly_def rangeConfig_def
        sampleLib_def paddedRange_def baseProps_def Let_def)
  have f: "snapMin (Some (Finite (49 / 50))) = Finite 0" "snapMax (Some (Finite (61 / 50))) = Finite 2"
    by (simp_all add: incrRoundDn_def incrRoundUp_def)
  from decimal_snap [OF a sample_scale [of 1] n, of sampleLib] h
  have "rangeFn sampleLib ?p (plotWith 1) (Some 1) (Some (6 / 5)) ''y''
          = Inr (Some (Finite 0), Some (Finite 2))"
    unfolding d by (simp only: fst_conv snd_conv f) auto
  with a n d show ?thesis by simp
qed

section \<open>Merging bounds (C6)\<close>

text \<open>
  C6: \<^verbatim>\<open>optMinMax\<close> returns, of two numbers, the smaller for \<^verbatim>\<open>'min'\<close> and the larger for
  \<^verbatim>\<open>'max'\<close>; the one that is present when the other is \<^verbatim>\<open>null\<close> or \<^verbatim>\<open>undefined\<close>; and an
  absent value when both are absent. A 0 is a number like any other. \<^verbatim>\<open>merge\<close> applies it
  to the \<^verbatim>\<open>min\<close> and the \<^verbatim>\<open>max\<close> of the builder's props and of the incoming ones: the three
  examples of the spec are the last three lines.
\<close>

theorem optMinMax_merges:
  "optMinMax MinTag (Num x) (Num y) = Num (min x y) \<and>
   optMinMax MaxTag (Num x) (Num y) = Num (max x y) \<and>
   (isNullish b \<longrightarrow> optMinMax t (Num x) b = Num x) \<and>
   (isNullish a \<longrightarrow> optMinMax t a b = b) \<and>
   (isNullish a \<and> isNullish b \<longrightarrow> isNullish (optMinMax t a b)) \<and>
   optMinMax t (Num 0) Undefined = Num 0 \<and>
   optMinMax t (Num 0) Null = Num 0 \<and>
   optMinMax t Null (Num 0) = Num 0 \<and>
   optMinMax MinTag (Num 0) (Num 5) = Num 0 \<and>
   min' (merge this props) = optMinMax MinTag (min' this) (min' props) \<and>
   max' (merge this props) = optMinMax MaxTag (max' this) (max' props) \<and>
   min' (merge (baseProps\<lparr>min' := Num 5\<rparr>) (baseProps\<lparr>min' := Num 2\<rparr>)) = Num 2 \<and>
   max' (merge (baseProps\<lparr>max' := Num 5\<rparr>) (baseProps\<lparr>max' := Num 9\<rparr>)) = Num 9 \<and>
   min' (merge baseProps (baseProps\<lparr>min' := Num 3\<rparr>)) = Num 3"
proof -
  have m: "min' (merge this props) = optMinMax MinTag (min' this) (min' props)"
          "max' (merge this props) = optMinMax MaxTag (max' this) (max' props)"
    for this props
    by (simp_all add: merge_def)
  have e: "min' baseProps = Undefined" by (simp add: baseProps_def)
  show ?thesis
    by (simp add: m e optMinMax_both optMinMax_absent_a optMinMax_absent_b)
qed

theorem optMinMax_merges_witness:
  "isNullish Null \<and> isNullish Undefined \<and>
   optMinMax MinTag (Num 5) (Num 2) = Num 2 \<and>
   optMinMax MaxTag (Num 5) (Num 2) = Num 5 \<and>
   optMinMax MaxTag (Num 0) Null = Num 0 \<and>
   optMinMax MinTag Undefined (Num 3) = Num 3 \<and>
   optMinMax MaxTag Null Undefined = Undefined"
  using optMinMax_merges [where x = 5 and y = 2 and b = Null and t = MaxTag and a = Undefined]
        optMinMax_merges [where x = 0 and y = 0 and a = Undefined and t = MinTag and b = "Num 3"]
        optMinMax_merges [where x = 0 and y = 0 and a = Null and t = MaxTag and b = Undefined]
  by simp

section \<open>Boolean scales (C7)\<close>

text \<open>
  C7: when \<^verbatim>\<open>isBooleanUnit\<close> recognises the scale key, the descriptor \<^verbatim>\<open>getConfig\<close> stores
  under the key has the literal range \<^verbatim>\<open>[0, 1]\<close> and \<^verbatim>\<open>auto\<close> false, whatever bounds and
  whatever \<^verbatim>\<open>range\<close> the props hold; a literal range takes no data extent.
\<close>

theorem boolean_scale_override:
  "isBooleanUnit L (scaleKey p) \<Longrightarrow>
   getConfig L p (scaleKey p) = Some (scaleConfig L p) \<and>
   dom (getConfig L p) = {scaleKey p} \<and>
   d_range (scaleConfig L p) = RangeMinMax (Some 0) (Some 1) \<and>
   d_auto (scaleConfig L p) = False"
  by (simp add: getConfig_def scaleConfig_def Let_def split: prod.splits)

theorem boolean_scale_override_witness:
  "isBooleanUnit sampleLib
     (scaleKey (baseProps\<lparr>scaleKey := ''bool:on'', min' := Num 5, max' := Num 9,
                           range' := Some (RangeMinMax (Some 2) (Some 3))\<rparr>)) \<and>
   d_range (scaleConfig sampleLib
     (baseProps\<lparr>scaleKey := ''bool:on'', min' := Num 5, max' := Num 9,
                range' := Some (RangeMinMax (Some 2) (Some 3))\<rparr>)) = RangeMinMax (Some 0) (Some 1) \<and>
   d_auto (scaleConfig sampleLib
     (baseProps\<lparr>scaleKey := ''bool:on'', min' := Num 5, max' := Num 9,
                range' := Some (RangeMinMax (Some 2) (Some 3))\<rparr>)) = False"
proof -
  let ?p = "baseProps\<lparr>scaleKey := ''bool:on'', min' := Num 5, max' := Num 9,
                range' := Some (RangeMinMax (Some 2) (Some 3))\<rparr>"
  have b: "isBooleanUnit sampleLib (scaleKey ?p)" by (simp add: sampleLib_def)
  from b boolean_scale_override [OF b] show ?thesis by simp
qed

section \<open>Determinism (C8)\<close>

text \<open>
  C8: two calls of the resolver, one after the other, with the same extent, the same scale
  under the key and the same bounds, \<^verbatim>\<open>centeredZero\<close> and \<^verbatim>\<open>decimals\<close> in the props (whatever
  else the props and the uPlot instance hold) give the same result: the same error, or two
  arrays that hold the same range. This is a fact about the writes of lines 120 to 136.
  They go to the array the call itself made or got from the library: the second call
  finds the store the first one left, returns an array of its own, and does not touch the
  array the first call returned nor any array that was there before. The range in the
  returned array is the one the function \<open>rangeFn\<close> gives.
\<close>

theorem rangeFn_deterministic:
  assumes "scales u1 key = scales u2 key"
    and "min' p1 = min' p2" and "max' p1 = max' p2"
    and "softMin p1 = softMin p2" and "softMax p1 = softMax p2"
    and "centeredZero p1 = centeredZero p2" and "decimals p1 = decimals p2"
    and "rangeFn_st L p1 u1 dataMin dataMax key h = (r1, h1)"
    and "rangeFn_st L p2 u2 dataMin dataMax key h1 = (r2, h2)"
  shows "resultIn h2 r2 = resultIn h1 r1 \<and>
         resultIn h2 r1 = resultIn h1 r1 \<and>
         resultIn h1 r1 = rangeFn L p1 u1 dataMin dataMax key \<and>
         take (length h) h1 = h \<and> take (length h1) h2 = h1 \<and>
         (\<forall>a1 a2. r1 = Inr a1 \<and> r2 = Inr a2 \<longrightarrow> length h \<le> a1 \<and> a1 < a2)"
proof -
  from rangeFn_st_sound [OF assms(8)]
  have 1: "take (length h) h1 = h" "resultIn h1 r1 = rangeFn L p1 u1 dataMin dataMax key"
          "\<forall>a. r1 = Inr a \<longrightarrow> length h \<le> a \<and> a < length h1" by simp_all
  from rangeFn_st_sound [OF assms(9)]
  have 2: "take (length h1) h2 = h1" "resultIn h2 r2 = rangeFn L p2 u2 dataMin dataMax key"
          "\<forall>a. r2 = Inr a \<longrightarrow> length h1 \<le> a \<and> a < length h2" by simp_all
  have e: "rangeFn L p1 u1 dataMin dataMax key = rangeFn L p2 u2 dataMin dataMax key"
    using assms(1-7) by (rule rangeFn_reads)
  have k: "resultIn h2 r1 = resultIn h1 r1"
  proof (cases r1)
    case (Inl e)
    then show ?thesis by simp
  next
    case (Inr a)
    with 1(3) have "a < length h1" by simp
    then have "take (length h1) h2 ! a = h2 ! a" by simp
    with 2(1) Inr show ?thesis by simp
  qed
  have f: "\<forall>a1 a2. r1 = Inr a1 \<and> r2 = Inr a2 \<longrightarrow> length h \<le> a1 \<and> a1 < a2"
    using 1(3) 2(3) by fastforce
  from 1 2 e k f show ?thesis by simp
qed

text \<open>
  A linear scale with a hard minimum 0 and whole decimals, called twice with the extent
  \<^verbatim>\<open>[1, 2]\<close> on an empty store, the second time with another scale key in the props and
  another scale on the uPlot instance. Each call makes two arrays, its own \<^verbatim>\<open>[1, 2]\<close> and
  the library's, which it rewrites to \<^verbatim>\<open>[0, 3]\<close> and returns.
\<close>

theorem rangeFn_deterministic_witness:
  "rangeFn_st sampleLib (baseProps\<lparr>min' := Num 0, decimals := Num 0\<rparr>) (plotWith 1)
     (Some 1) (Some 2) ''y'' [] =
     (Inr 1, [(Some (Finite 1), Some (Finite 2)), (Some (Finite 0), Some (Finite 3))]) \<and>
   rangeFn_st sampleLib (baseProps\<lparr>min' := Num 0, decimals := Num 0, scaleKey := ''left''\<rparr>)
     \<lparr>scales = [''x'' \<mapsto> \<lparr>u_distr = Some 3, u_log = Some 2\<rparr>,
                ''y'' \<mapsto> \<lparr>u_distr = Some 1, u_log = Some 10\<rparr>]\<rparr>
     (Some 1) (Some 2) ''y''
     [(Some (Finite 1), Some (Finite 2)), (Some (Finite 0), Some (Finite 3))] =
     (Inr 3, [(Some (Finite 1), Some (Finite 2)), (Some (Finite 0), Some (Finite 3)),
              (Some (Finite 1), Some (Finite 2)), (Some (Finite 0), Some (Finite 3))]) \<and>
   rangeFn sampleLib (baseProps\<lparr>min' := Num 0, decimals := Num 0\<rparr>) (plotWith 1)
     (Some 1) (Some 2) ''y'' = Inr (Some (Finite 0), Some (Finite 3))"
proof -
  let ?p1 = "baseProps\<lparr>min' := Num 0, decimals := Num 0\<rparr>"
  let ?p2 = "baseProps\<lparr>min' := Num 0, decimals := Num 0, scaleKey := ''left''\<rparr>"
  let ?u2 = "\<lparr>scales = [''x'' \<mapsto> \<lparr>u_distr = Some 3, u_log = Some 2\<rparr>,
                ''y'' \<mapsto> \<lparr>u_distr = Some (1::nat), u_log = Some (10::real)\<rparr>]\<rparr>"
  let ?h1 = "[(Some (Finite 1), Some (Finite 2)), (Some (Finite 0), Some (Finite 3))]"
  let ?h2 = "[(Some (Finite 1), Some (Finite 2)), (Some (Finite 0), Some (Finite 3)),
              (Some (Finite 1), Some (Finite 2)), (Some (Finite 0), Some (Finite 3))]"
  have rc: "rangeConfig ?p1 = \<lparr>min_cfg = \<lparr>pad = 1 / 10, hard = Fin 0, soft = 0, mode = 3\<rparr>,
                             max_cfg = \<lparr>pad = 1 / 10, hard = PosInf, soft = 0, mode = 3\<rparr>\<rparr>"
           "rangeConfig ?p2 = \<lparr>min_cfg = \<lparr>pad = 1 / 10, hard = Fin 0, soft = 0, mode = 3\<rparr>,
                             max_cfg = \<lparr>pad = 1 / 10, hard = PosInf, soft = 0, mode = 3\<rparr>\<rparr>"
    by (simp_all add: rangeConfig_def baseProps_def)
  have hm: "hardMinOnly ?p1" "\<not> hardMaxOnly ?p1" "hardMinOnly ?p2" "\<not> hardMaxOnly ?p2"
    by (simp_all add: hardMinOnly_def hardMaxOnly_def baseProps_def)
  have d: "distr_st sampleLib ?p1 \<lparr>u_distr = Some (Suc 0), u_log = Some 10\<rparr> (Some 1) (Some 2) m hh
             = (length hh, hh @ [(Some (Finite 0), Some (Finite (11 / 5)))])"
           "distr_st sampleLib ?p2 \<lparr>u_distr = Some (Suc 0), u_log = Some 10\<rparr> (Some 1) (Some 2) m hh
             = (length hh, hh @ [(Some (Finite 0), Some (Finite (11 / 5)))])" for m hh
    by (simp_all add: distr_st_def alloc_def hardMinOnly_def hardMaxOnly_def rangeConfig_def
        centerStage_def sampleLib_def paddedRange_def baseProps_def Let_def)
  have dec: "decimals ?p1 = Num 0" "decimals ?p2 = Num 0" "nonNull (min' ?p1) = Some 0"
    "nonNull (min' ?p2) = Some 0"
    by (simp_all add: baseProps_def)
  have fl: "\<lfloor>0 :: real\<rfloor> = 0" "\<lceil>11 / 5 :: real\<rceil> = 3" by simp_all
  have c1: "rangeFn_st sampleLib ?p1 (plotWith 1) (Some 1) (Some 2) ''y'' [] = (Inr 1, ?h1)"
    by (simp add: rangeFn_st_def alloc_def plotWith_def hasFixedRange_def hm d
        snap_st_def hard_st_def guard_st_def setMin_def setMax_def dec
        incrRoundDn_def incrRoundUp_def fl Let_def)
  have c2: "rangeFn_st sampleLib ?p2 ?u2 (Some 1) (Some 2) ''y'' ?h1 = (Inr 3, ?h2)"
    by (simp add: rangeFn_st_def alloc_def hasFixedRange_def hm d
        snap_st_def hard_st_def guard_st_def setMin_def setMax_def dec
        incrRoundDn_def incrRoundUp_def fl Let_def)
  have "rangeFn sampleLib ?p1 (plotWith 1) (Some 1) (Some 2) ''y'' = Inr (Some (Finite 0), Some (Finite 3))"
    using rangeFn_deterministic [OF _ _ _ _ _ _ _ c1 c2]
    by (simp add: plotWith_def)
  with c1 c2 show ?thesis by simp
qed

section \<open>The distribution fields (C9)\<close>

text \<open>
  C9, as the spec has it, ends: for a time scale the range does not come from \<^verbatim>\<open>rangeFn\<close>.
  \<^verbatim>\<open>getConfig\<close> has one rule for every scale, \<^verbatim>\<open>range: range ?? rangeFn\<close> (line 153): a time
  scale whose props hold no \<^verbatim>\<open>range\<close> gets \<^verbatim>\<open>rangeFn\<close>.
\<close>

theorem distribution_fields_counterexample:
  "isTime (baseProps\<lparr>scaleKey := ''x'', isTime := Some True\<rparr>) = Some True \<and>
   d_range (scaleConfig sampleLib (baseProps\<lparr>scaleKey := ''x'', isTime := Some True\<rparr>)) =
     RangeFunction (rangeFn sampleLib (baseProps\<lparr>scaleKey := ''x'', isTime := Some True\<rparr>))"
  by (simp add: scaleConfig_def distributionFields_def Let_def sampleLib_def baseProps_def)

text \<open>
  C9, amended: for a scale that is not a time scale, \<^verbatim>\<open>distr\<close> is 1 for Linear (and for no
  distribution), 2 for Ordinal, 3 for Log and 4 for SymLog; \<^verbatim>\<open>log\<close> is the configured base,
  2 when there is none, for Log and SymLog and \<^verbatim>\<open>undefined\<close> otherwise; \<^verbatim>\<open>asinh\<close> is the
  configured linear threshold, 1 when there is none, for SymLog only. For a time scale
  none of the three is set, and the range is the one the props hold (\<^verbatim>\<open>[0, 1]\<close> for a
  boolean key), or \<^verbatim>\<open>rangeFn\<close> when they hold none.
\<close>

theorem distribution_fields:
  "(isTime p \<noteq> Some True \<longrightarrow>
      d_distr (scaleConfig L p) =
        Some (case distribution p of
                Some Linear \<Rightarrow> 1 | Some Ordinal \<Rightarrow> 2 | Some Log \<Rightarrow> 3 | Some Symlog \<Rightarrow> 4
              | None \<Rightarrow> 1) \<and>
      d_log (scaleConfig L p) =
        (if distribution p = Some Log \<or> distribution p = Some Symlog
         then Some (case log' p of Some b \<Rightarrow> b | None \<Rightarrow> 2) else None) \<and>
      d_asinh (scaleConfig L p) =
        (if distribution p = Some Symlog
         then Some (case linearThreshold p of Some t \<Rightarrow> t | None \<Rightarrow> 1) else None)) \<and>
   (isTime p = Some True \<longrightarrow>
      d_distr (scaleConfig L p) = None \<and> d_log (scaleConfig L p) = None \<and>
      d_asinh (scaleConfig L p) = None \<and>
      d_range (scaleConfig L p) =
        (if isBooleanUnit L (scaleKey p) then RangeMinMax (Some 0) (Some 1)
         else case range' p of Some r \<Rightarrow> r | None \<Rightarrow> RangeFunction (rangeFn L p)))"
  by (cases "distribution p")
     (auto simp add: scaleConfig_def distributionFields_def Let_def
           split: ScaleDistribution.splits option.splits)

theorem distribution_fields_witness:
  "isTime (baseProps\<lparr>distribution := Some Symlog\<rparr>) \<noteq> Some True \<and>
   d_distr (scaleConfig sampleLib (baseProps\<lparr>distribution := Some Symlog\<rparr>)) = Some 4 \<and>
   d_log (scaleConfig sampleLib (baseProps\<lparr>distribution := Some Symlog\<rparr>)) = Some 2 \<and>
   d_asinh (scaleConfig sampleLib (baseProps\<lparr>distribution := Some Symlog\<rparr>)) = Some 1 \<and>
   isTime (baseProps\<lparr>isTime := Some True, range' := Some (RangeMinMax (Some 0) (Some 60))\<rparr>) = Some True \<and>
   d_distr (scaleConfig sampleLib
     (baseProps\<lparr>isTime := Some True, range' := Some (RangeMinMax (Some 0) (Some 60))\<rparr>)) = None \<and>
   d_range (scaleConfig sampleLib
     (baseProps\<lparr>isTime := Some True, range' := Some (RangeMinMax (Some 0) (Some 60))\<rparr>))
     = RangeMinMax (Some 0) (Some 60)"
proof -
  have a: "isTime (baseProps\<lparr>distribution := Some Symlog\<rparr>) \<noteq> Some True"
    by (simp add: baseProps_def)
  have b: "isTime (baseProps\<lparr>isTime := Some True, range' := Some (RangeMinMax (Some 0) (Some 60))\<rparr>) = Some True"
    by simp
  have c: "log' baseProps = None" "linearThreshold baseProps = None" "scaleKey baseProps = ''y''"
    by (simp_all add: baseProps_def)
  have d: "\<not> isBooleanUnit sampleLib ''y''" by (simp add: sampleLib_def)
  from a b
    distribution_fields [of "baseProps\<lparr>distribution := Some Symlog\<rparr>" sampleLib]
    distribution_fields [of "baseProps\<lparr>isTime := Some True, range' := Some (RangeMinMax (Some 0) (Some 60))\<rparr>" sampleLib]
  show ?thesis by (simp add: c d)
qed

section \<open>The asinh branch (C10)\<close>

text \<open>
  C10: the first test of the branch on \<^verbatim>\<open>scale.distr\<close> takes the discriminator 4, so a
  symmetric-log scale is ranged by \<^verbatim>\<open>uPlot.rangeNum\<close> as a linear or an ordinal one is, and
  the branch that calls \<^verbatim>\<open>uPlot.rangeAsinh\<close> is never taken: the resolver equals the one
  without that branch, and does not depend on \<^verbatim>\<open>rangeAsinh\<close>.
\<close>

theorem asinh_branch_unreachable:
  "rangeFn L p u dataMin dataMax key = rangeFn_noAsinh L p u dataMin dataMax key \<and>
   rangeFn (L\<lparr>rangeAsinh := f\<rparr>) p u dataMin dataMax key = rangeFn L p u dataMin dataMax key \<and>
   (u_distr sc = Some 4 \<longrightarrow>
      distrStage L p sc dataMin dataMax =
        (let (dataMin', dataMax') = centerStage p dataMin dataMax
         in rangeNum L (if hardMinOnly p then nonNull (min' p) else dataMin')
                       (if hardMaxOnly p then nonNull (max' p) else dataMax')
                       (rangeConfig p)) \<and>
      distrStage L p sc dataMin dataMax = distrStage L p (sc\<lparr>u_distr := Some 1\<rparr>) dataMin dataMax \<and>
      distrStage L p sc dataMin dataMax = distrStage L p (sc\<lparr>u_distr := Some 2\<rparr>) dataMin dataMax)"
proof (intro conjI impI)
  show "rangeFn L p u dataMin dataMax key = rangeFn_noAsinh L p u dataMin dataMax key"
    by (cases "scales u key")
       (simp_all add: rangeFn_def rangeFn_noAsinh_def beforeGuard_def distrStage_noAsinh_eq)
  have "distrStage (L\<lparr>rangeAsinh := f\<rparr>) p s dataMin dataMax = distrStage L p s dataMin dataMax" for s
    by (simp add: distrStage_noAsinh_eq distrStage_noAsinh_def)
  then show "rangeFn (L\<lparr>rangeAsinh := f\<rparr>) p u dataMin dataMax key = rangeFn L p u dataMin dataMax key"
    by (cases "scales u key") (simp_all add: rangeFn_def beforeGuard_def)
next
  assume "u_distr sc = Some 4"
  then show "distrStage L p sc dataMin dataMax =
        (let (dataMin', dataMax') = centerStage p dataMin dataMax
         in rangeNum L (if hardMinOnly p then nonNull (min' p) else dataMin')
                       (if hardMaxOnly p then nonNull (max' p) else dataMax')
                       (rangeConfig p))"
    by (simp add: distrStage_def)
next
  assume "u_distr sc = Some 4"
  then show "distrStage L p sc dataMin dataMax = distrStage L p (sc\<lparr>u_distr := Some 1\<rparr>) dataMin dataMax"
    by (simp add: distrStage_def)
next
  assume "u_distr sc = Some 4"
  then show "distrStage L p sc dataMin dataMax = distrStage L p (sc\<lparr>u_distr := Some 2\<rparr>) dataMin dataMax"
    by (simp add: distrStage_def)
qed

theorem asinh_branch_unreachable_witness:
  "u_distr \<lparr>u_distr = Some 4, u_log = Some 10\<rparr> = Some 4 \<and>
   distrStage (sampleLib\<lparr>rangeAsinh := (\<lambda>a b base fullMags. (Some (Finite 0), Some (Finite 1)))\<rparr>) baseProps
     \<lparr>u_distr = Some 4, u_log = Some 10\<rparr> (Some 10) (Some 20) = (Some (Finite 9), Some (Finite 21)) \<and>
   rangeFn (sampleLib\<lparr>rangeAsinh := (\<lambda>a b base fullMags. (Some (Finite 0), Some (Finite 1)))\<rparr>) baseProps
     (plotWith 4) (Some 10) (Some 20) ''y'' = Inr (Some (Finite 9), Some (Finite 21)) \<and>
   rangeFn_noAsinh sampleLib baseProps (plotWith 4) (Some 10) (Some 20) ''y'' = Inr (Some (Finite 9), Some (Finite 21))"
proof -
  let ?L = "sampleLib\<lparr>rangeAsinh := (\<lambda>a b base fullMags. (Some (Finite 0), Some (Finite 1)))\<rparr>"
  let ?sc = "\<lparr>u_distr = Some 4, u_log = Some (10::real)\<rparr>"
  have a: "u_distr ?sc = Some 4" by simp
  have n: "rangeFn_noAsinh sampleLib baseProps (plotWith 4) (Some 10) (Some 20) ''y'' = Inr (Some (Finite 9), Some (Finite 21))"
    by (simp add: rangeFn_noAsinh_def distrStage_noAsinh_def plotWith_def hasFixedRange_def
        hardMinOnly_def hardMaxOnly_def hardStage_def snapStage_def guardStage_def centerStage_def
        rangeConfig_def sampleLib_def paddedRange_def baseProps_def Let_def)
  have d: "distrStage ?L baseProps ?sc (Some 10) (Some 20) = (Some (Finite 9), Some (Finite 21))"
    using asinh_branch_unreachable [of ?L baseProps "plotWith 4" "Some 10" "Some 20" "''y''" "rangeAsinh sampleLib" ?sc] a
    by (simp add: centerStage_def hardMinOnly_def hardMaxOnly_def
        rangeConfig_def sampleLib_def paddedRange_def baseProps_def Let_def)
  from asinh_branch_unreachable [of sampleLib baseProps "plotWith 4" "Some 10" "Some 20" "''y''"
         "\<lambda>a b base fullMags. (Some (Finite 0), Some (Finite 1))" ?sc] a n d
  show ?thesis by simp
qed

end
